theory Spec2Isabelle
  imports Complex_Main "HOL-Library.Sublist"
begin

section \<open>Entity spans\<close>

text \<open>
  A span is the part of a spaCy entity that \<^verbatim>\<open>nlp/spacy_extractor.py\<close> reads: its label,
  its text, its two offsets, and the two optional attributes \<^verbatim>\<open>score\<close> and
  \<^verbatim>\<open>confidence\<close> that \<^verbatim>\<open>extract_item_from_group\<close> probes with \<^verbatim>\<open>getattr\<close>.
  Labels are compared as strings, as the source does. Strings are ASCII text; Python
  floats are carried as exact reals (binary rounding is not represented).
\<close>

record span =
  span_label :: string
  span_text :: string
  span_start :: nat
  span_end :: nat
  span_score :: "real option"
  span_confidence :: "real option"

section \<open>Grouper: \<^verbatim>\<open>group_entities_by_proximity\<close>\<close>

text \<open>
  The \<^verbatim>\<open>for\<close> loop of the source, with its three loop variables \<^verbatim>\<open>groups\<close>,
  \<^verbatim>\<open>current_group\<close> and \<^verbatim>\<open>has_food_in_group\<close> passed as state. The loop returns
  the first two; the flag is dead after the loop.
\<close>

fun group_loop ::
  "span list \<Rightarrow> span list list \<Rightarrow> span list \<Rightarrow> bool \<Rightarrow> span list list \<times> span list"
where
  "group_loop [] groups current_group has_food = (groups, current_group)"
| "group_loop (ent # ents) groups current_group has_food =
     (if span_label ent = ''FOOD'' \<and> has_food
      then group_loop ents
             (if current_group \<noteq> [] then groups @ [current_group] else groups)
             [ent] True
      else group_loop ents groups (current_group @ [ent])
             (if span_label ent = ''FOOD'' then True else has_food))"

definition group_entities_by_proximity :: "span list \<Rightarrow> span list list" where
  "group_entities_by_proximity entities =
     (if entities = [] then []
      else (case group_loop entities [] [] False of
              (groups, current_group) \<Rightarrow>
                if current_group \<noteq> [] then groups @ [current_group] else groups))"

section \<open>Python strings and floats\<close>

text \<open>
  The string methods the extractor calls, on ASCII text: \<^verbatim>\<open>str.lower\<close>,
  \<^verbatim>\<open>str.strip\<close> (the characters \<^verbatim>\<open>str.isspace\<close> accepts), \<^verbatim>\<open>in\<close> and
  \<^verbatim>\<open>str.split("/")\<close>.
\<close>

definition is_space :: "char \<Rightarrow> bool" where
  "is_space c =
     (c \<in> set [CHR 0x09, CHR 0x0A, CHR 0x0B, CHR 0x0C, CHR 0x0D,
                CHR 0x1C, CHR 0x1D, CHR 0x1E, CHR 0x1F, CHR 0x20])"

definition is_digit :: "char \<Rightarrow> bool" where
  "is_digit c = (c \<in> set ''0123456789'')"

definition ascii_uppercase :: string where
  "ascii_uppercase = ''ABCDEFGHIJKLMNOPQRSTUVWXYZ''"

definition ascii_lowercase :: string where
  "ascii_lowercase = ''abcdefghijklmnopqrstuvwxyz''"

definition lower_char :: "char \<Rightarrow> char" where
  "lower_char c =
     (case map_of (zip ascii_uppercase ascii_lowercase) c of Some l \<Rightarrow> l | None \<Rightarrow> c)"

definition lower :: "string \<Rightarrow> string" where
  "lower s = map lower_char s"

definition strip :: "string \<Rightarrow> string" where
  "strip s = rev (dropWhile is_space (rev (dropWhile is_space s)))"

text \<open>\<^verbatim>\<open>needle in haystack\<close> on strings: some suffix of the haystack starts with the needle.\<close>

fun str_contains :: "string \<Rightarrow> string \<Rightarrow> bool" where
  "str_contains [] needle = (needle = [])"
| "str_contains (c # cs) needle = (if prefix needle (c # cs) then True else str_contains cs needle)"

text \<open>The first two parts of \<^verbatim>\<open>s.split("/")\<close>, for a string that holds a slash.\<close>

definition split_slash :: "string \<Rightarrow> string \<times> string" where
  "split_slash s =
     (takeWhile (\<lambda>c. c \<noteq> CHR ''/'') s,
      takeWhile (\<lambda>c. c \<noteq> CHR ''/'') (tl (dropWhile (\<lambda>c. c \<noteq> CHR ''/'') s)))"

text \<open>
  A Python float is a finite value, an infinity or a NaN. \<^verbatim>\<open>float(s)\<close> on a string
  follows the language's grammar: surrounding whitespace, an optional sign, then
  \<^verbatim>\<open>inf\<close>, \<^verbatim>\<open>infinity\<close>, \<^verbatim>\<open>nan\<close> or a decimal literal with optional fraction and
  exponent, digits optionally grouped by single underscores, in any letter case.
  \<^verbatim>\<open>None\<close> stands for \<^verbatim>\<open>ValueError\<close>.
\<close>

datatype pyfloat = Fin real | PInf | NInf | NaN

datatype py_error = ValueError | ZeroDivisionError | ValidationError

definition digit_val :: "char \<Rightarrow> nat" where
  "digit_val c = of_char c - of_char CHR ''0''"

definition nat_of_digits :: "string \<Rightarrow> nat" where
  "nat_of_digits ds = foldl (\<lambda>n c. 10 * n + digit_val c) 0 ds"

fun more_digits :: "string \<Rightarrow> string \<times> string" where
  "more_digits [] = ([], [])"
| "more_digits [c] = (if is_digit c then ([c], []) else ([], [c]))"
| "more_digits (c # d # r) =
     (if is_digit c then (case more_digits (d # r) of (ds, rest) \<Rightarrow> (c # ds, rest))
      else if c = CHR ''_'' \<and> is_digit d then (case more_digits r of (ds, rest) \<Rightarrow> (d # ds, rest))
      else ([], c # d # r))"

definition digitpart :: "string \<Rightarrow> (string \<times> string) option" where
  "digitpart s =
     (case s of
        [] \<Rightarrow> None
      | c # r \<Rightarrow> if is_digit c then (case more_digits r of (ds, rest) \<Rightarrow> Some (c # ds, rest))
                 else None)"

definition exponent :: "string \<Rightarrow> int option" where
  "exponent s =
     (case s of
        [] \<Rightarrow> Some 0
      | c # r \<Rightarrow>
          if c \<noteq> CHR ''e'' then None
          else (case r of
                  [] \<Rightarrow> None
                | sg # r' \<Rightarrow>
                    (case digitpart (if sg = CHR ''+'' \<or> sg = CHR ''-'' then r' else r) of
                       Some (ds, []) \<Rightarrow>
                         Some (if sg = CHR ''-'' then - int (nat_of_digits ds)
                               else int (nat_of_digits ds))
                     | _ \<Rightarrow> None)))"

definition with_exponent :: "string \<Rightarrow> string \<Rightarrow> string \<Rightarrow> real option" where
  "with_exponent ip fp r =
     (case exponent r of
        None \<Rightarrow> None
      | Some e \<Rightarrow>
          (let m = real (nat_of_digits ip) + real (nat_of_digits fp) / 10 ^ length fp
           in Some (if 0 \<le> e then m * 10 ^ nat e else m / 10 ^ nat (- e))))"

definition float_magnitude :: "string \<Rightarrow> real option" where
  "float_magnitude s =
     (case digitpart s of
        Some (ip, r) \<Rightarrow>
          (case r of
             [] \<Rightarrow> with_exponent ip [] []
           | c # r' \<Rightarrow>
               if c = CHR ''.''
               then (case digitpart r' of
                       Some (fp, r'') \<Rightarrow> with_exponent ip fp r''
                     | None \<Rightarrow> with_exponent ip [] r')
               else with_exponent ip [] r)
      | None \<Rightarrow>
          (case s of
             [] \<Rightarrow> None
           | c # r \<Rightarrow>
               if c = CHR ''.''
               then (case digitpart r of
                       Some (fp, r') \<Rightarrow> with_exponent [] fp r'
                     | None \<Rightarrow> None)
               else None))"

definition py_float :: "string \<Rightarrow> pyfloat option" where
  "py_float s =
     (case lower (strip s) of
        [] \<Rightarrow> None
      | c # r \<Rightarrow>
          (let neg = (c = CHR ''-'');
               body = (if c = CHR ''-'' \<or> c = CHR ''+'' then r else c # r)
           in if body = ''inf'' \<or> body = ''infinity'' then Some (if neg then NInf else PInf)
              else if body = ''nan'' then Some NaN
              else (case float_magnitude body of
                      None \<Rightarrow> None
                    | Some m \<Rightarrow> Some (Fin (if neg then - m else m)))))"

text \<open>
  Float division and addition. Python raises \<^verbatim>\<open>ZeroDivisionError\<close> on any float
  divided by zero; the other cases follow IEEE 754.
\<close>

fun float_div :: "pyfloat \<Rightarrow> pyfloat \<Rightarrow> pyfloat" where
  "float_div NaN b = NaN"
| "float_div a NaN = NaN"
| "float_div (Fin a) (Fin b) = Fin (a / b)"
| "float_div (Fin a) b = Fin 0"
| "float_div PInf (Fin b) = (if 0 < b then PInf else NInf)"
| "float_div NInf (Fin b) = (if 0 < b then NInf else PInf)"
| "float_div a b = NaN"

definition py_truediv :: "pyfloat \<Rightarrow> pyfloat \<Rightarrow> py_error + pyfloat" where
  "py_truediv a b = (if b = Fin 0 then Inl ZeroDivisionError else Inr (float_div a b))"

fun float_add :: "pyfloat \<Rightarrow> pyfloat \<Rightarrow> pyfloat" where
  "float_add NaN b = NaN"
| "float_add a NaN = NaN"
| "float_add (Fin a) (Fin b) = Fin (a + b)"
| "float_add (Fin a) b = b"
| "float_add a (Fin b) = a"
| "float_add a b = (if a = b then a else NaN)"


section \<open>Quantity parser: \<^verbatim>\<open>parse_number\<close>\<close>

text \<open>
  \<^verbatim>\<open>re.match(r'(\d+)\s+(\d+)/(\d+)', s)\<close>: anchored at the start, not at the end. The
  character classes of neighbouring parts are disjoint, so the greedy match is the only one.
\<close>

definition mixed_match :: "string \<Rightarrow> (string \<times> string \<times> string) option" where
  "mixed_match s =
     (let whole = takeWhile is_digit s; r1 = dropWhile is_digit s;
          sp = takeWhile is_space r1; r2 = dropWhile is_space r1;
          num = takeWhile is_digit r2; r3 = dropWhile is_digit r2
      in if whole = [] \<or> sp = [] \<or> num = [] then None
         else (case r3 of
                 [] \<Rightarrow> None
               | c # r4 \<Rightarrow>
                   if c = CHR ''/'' \<and> takeWhile is_digit r4 \<noteq> []
                   then Some (whole, num, takeWhile is_digit r4)
                   else None))"

text \<open>
  The \<^verbatim>\<open>try\<close> block of the simple fraction: every exception is caught
  (\<^verbatim>\<open>except:\<close>), so \<^verbatim>\<open>None\<close> is "fall through".
\<close>

definition parse_fraction :: "string \<Rightarrow> pyfloat option" where
  "parse_fraction s =
     (case split_slash s of
        (p0, p1) \<Rightarrow>
          (case py_float p0 of
             None \<Rightarrow> None
           | Some a \<Rightarrow>
               (case py_float p1 of
                  None \<Rightarrow> None
                | Some b \<Rightarrow>
                    (case py_truediv a b of Inl e \<Rightarrow> None | Inr v \<Rightarrow> Some v))))"

text \<open>
  The mixed fraction: only \<^verbatim>\<open>ZeroDivisionError\<close> is caught, so a \<^verbatim>\<open>ValueError\<close> of
  one of the three \<^verbatim>\<open>float\<close> calls would leave the function. \<^verbatim>\<open>Inr None\<close> is
  "fall through".
\<close>

definition parse_mixed :: "string \<Rightarrow> py_error + pyfloat option" where
  "parse_mixed s =
     (case mixed_match s of
        None \<Rightarrow> Inr None
      | Some (whole, num, denom) \<Rightarrow>
          (case py_float whole of
             None \<Rightarrow> Inl ValueError
           | Some w \<Rightarrow>
               (case py_float num of
                  None \<Rightarrow> Inl ValueError
                | Some n \<Rightarrow>
                    (case py_float denom of
                       None \<Rightarrow> Inl ValueError
                     | Some d \<Rightarrow>
                         (case py_truediv n d of
                            Inl e \<Rightarrow> if e = ZeroDivisionError then Inr None else Inl e
                          | Inr q \<Rightarrow> Inr (Some (float_add w q)))))))"

definition word_numbers :: "(string \<times> real) list" where
  "word_numbers =
     [(''one'', 1), (''two'', 2), (''three'', 3), (''four'', 4), (''five'', 5),
      (''six'', 6), (''seven'', 7), (''eight'', 8), (''nine'', 9), (''ten'', 10),
      (''half'', 0.5), (''quarter'', 0.25), (''third'', 0.33),
      (''a'', 1), (''an'', 1)]"

text \<open>
  \<^verbatim>\<open>parse_number\<close>. The argument is \<^verbatim>\<open>None\<close> for an absent string. The conversion
  \<^verbatim>\<open>w2n.word_to_num\<close> belongs to the library \<^verbatim>\<open>word2number\<close>; it is a parameter
  (\<^verbatim>\<open>None\<close> where it raises, and the call sits under \<^verbatim>\<open>except:\<close>). The result is
  \<^verbatim>\<open>Inl\<close> for an exception that leaves the function.
\<close>

definition parse_number :: "(string \<Rightarrow> real option) \<Rightarrow> string option \<Rightarrow> py_error + pyfloat" where
  "parse_number w2n qty_str =
     (case qty_str of
        None \<Rightarrow> Inr (Fin 1)
      | Some raw \<Rightarrow>
          if raw = [] then Inr (Fin 1)
          else
            (let s = lower (strip raw) in
             case py_float s of
               Some v \<Rightarrow> Inr v
             | None \<Rightarrow>
                 (case (if CHR ''/'' \<in> set s then parse_fraction s else None) of
                    Some v \<Rightarrow> Inr v
                  | None \<Rightarrow>
                      (case parse_mixed s of
                         Inl e \<Rightarrow> Inl e
                       | Inr (Some v) \<Rightarrow> Inr v
                       | Inr None \<Rightarrow>
                           (case map_of word_numbers s of
                              Some r \<Rightarrow> Inr (Fin r)
                            | None \<Rightarrow>
                                (case w2n s of
                                   Some r \<Rightarrow> Inr (Fin r)
                                 | None \<Rightarrow> Inr (Fin 1)))))))"

text \<open>A \<^verbatim>\<open>word_to_num\<close> that rejects every string, for closed evaluations.\<close>

definition w2n_rejects :: "string \<Rightarrow> real option" where
  "w2n_rejects s = None"

section \<open>Unit normalizer: \<^verbatim>\<open>normalize_unit\<close>\<close>

definition UNIT_ALIASES :: "(string \<times> string) list" where
  "UNIT_ALIASES =
     [(''g'', ''grams''), (''gram'', ''grams''), (''grams'', ''grams''),
      (''kg'', ''kg''), (''kilogram'', ''kg''), (''kilograms'', ''kg''),
      (''ml'', ''ml''), (''milliliter'', ''ml''), (''milliliters'', ''ml''),
      (''l'', ''liters''), (''liter'', ''liters''), (''litre'', ''liters''), (''litres'', ''liters''),
      (''cup'', ''cups''), (''cups'', ''cups''),
      (''slice'', ''slices''), (''slices'', ''slices''),
      (''piece'', ''pieces''), (''pieces'', ''pieces''), (''pc'', ''pieces''),
      (''tbsp'', ''tablespoons''), (''tablespoon'', ''tablespoons''), (''tablespoons'', ''tablespoons''),
      (''tsp'', ''teaspoons''), (''teaspoon'', ''teaspoons''), (''teaspoons'', ''teaspoons''),
      (''glass'', ''glasses''), (''glasses'', ''glasses''),
      (''serving'', ''servings''), (''servings'', ''servings''), (''serve'', ''servings''),
      (''oz'', ''ounces''), (''ounce'', ''ounces''), (''ounces'', ''ounces''),
      (''lb'', ''pounds''), (''pound'', ''pounds''), (''pounds'', ''pounds''),
      (''bowl'', ''bowls''), (''bowls'', ''bowls''),
      (''plate'', ''plates''), (''plates'', ''plates''),
      (''can'', ''cans''), (''cans'', ''cans''),
      (''bottle'', ''bottles''), (''bottles'', ''bottles''),
      (''handful'', ''handful''), (''bunch'', ''bunch'')]"

text \<open>
  \<^verbatim>\<open>if not unit\<close> tests the raw argument, before it is lowercased and stripped;
  \<^verbatim>\<open>UNIT_ALIASES.get(unit_lower, unit_lower)\<close> follows.
\<close>

definition normalize_unit :: "string \<Rightarrow> string" where
  "normalize_unit unit =
     (if unit = [] then ''servings''
      else (let unit_lower = strip (lower unit)
            in case map_of UNIT_ALIASES unit_lower of
                 Some canonical \<Rightarrow> canonical
               | None \<Rightarrow> unit_lower))"

section \<open>Confidence scorer: \<^verbatim>\<open>calculate_confidence\<close>\<close>

text \<open>
  \<^verbatim>\<open>getattr(ent, 'score', None) or getattr(ent, 'confidence', None)\<close>: Python's
  \<^verbatim>\<open>or\<close> returns its first operand when that is truthy and its second otherwise;
  \<^verbatim>\<open>None\<close> and \<^verbatim>\<open>0.0\<close> are falsy.
\<close>

definition truthy :: "real option \<Rightarrow> bool" where
  "truthy x = (case x of None \<Rightarrow> False | Some r \<Rightarrow> r \<noteq> 0)"

definition py_or :: "real option \<Rightarrow> real option \<Rightarrow> real option" where
  "py_or a b = (if truthy a then a else b)"

definition entity_score :: "span \<Rightarrow> real option" where
  "entity_score ent = py_or (span_score ent) (span_confidence ent)"

definition calculate_confidence :: "(span \<times> real option) list \<Rightarrow> real" where
  "calculate_confidence entities =
     (if entities = [] then 0.5
      else
        (let scores = List.map_filter snd entities in
         if scores \<noteq> [] then sum_list scores / real (length scores)
         else
           (let entity_types = set (map (\<lambda>(e, s). span_label e) entities) in
            if ''FOOD'' \<in> entity_types then
              (if ''QUANTITY'' \<in> entity_types \<and> ''UNIT'' \<in> entity_types then 0.95
               else if ''QUANTITY'' \<in> entity_types \<or> ''UNIT'' \<in> entity_types then 0.80
               else 0.65)
            else 0.50)))"

text \<open>
  The confidence of a group as the assembler computes it: each span is paired with its
  score (the \<^verbatim>\<open>entity_info\<close> list) and the list goes to \<^verbatim>\<open>calculate_confidence\<close>.
\<close>

definition group_confidence :: "span list \<Rightarrow> real" where
  "group_confidence ents = calculate_confidence (map (\<lambda>ent. (ent, entity_score ent)) ents)"

text \<open>
  The scorer as the specification words it, for comparison: a span carries a score when
  one of its two attributes is present, and the confidence of a group with such a span is
  the mean of the scores present.
\<close>

definition present_score :: "span \<Rightarrow> real option" where
  "present_score ent =
     (case span_score ent of Some s \<Rightarrow> Some s | None \<Rightarrow> span_confidence ent)"

definition mean_present_scores :: "span list \<Rightarrow> real" where
  "mean_present_scores ents =
     sum_list (List.map_filter present_score ents) /
     real (length (List.map_filter present_score ents))"

section \<open>Item assembler: \<^verbatim>\<open>extract_item_from_group\<close>\<close>

text \<open>
  \<^verbatim>\<open>round(x, n)\<close> on the exact value: to the nearest multiple of \<open>10\<^sup>-\<^sup>n\<close>, a tie
  going to the even neighbour.
\<close>

definition round_half_even :: "real \<Rightarrow> int" where
  "round_half_even x =
     (let f = \<lfloor>x\<rfloor>; d = x - of_int f
      in if d < 1 / 2 then f else if 1 / 2 < d then f + 1 else if even f then f else f + 1)"

definition py_round :: "nat \<Rightarrow> real \<Rightarrow> real" where
  "py_round n x = of_int (round_half_even (x * 10 ^ n)) / 10 ^ n"

text \<open>\<^verbatim>\<open>sep.join(parts)\<close>.\<close>

fun str_join :: "string \<Rightarrow> string list \<Rightarrow> string" where
  "str_join sep [] = []"
| "str_join sep [p] = p"
| "str_join sep (p # q # ps) = p @ sep @ str_join sep (q # ps)"

text \<open>
  \<^verbatim>\<open>max(xs, key=lambda q: q.end)\<close> on a non-empty list: the first element with the
  largest key.
\<close>

fun max_by_end :: "span \<Rightarrow> span list \<Rightarrow> span" where
  "max_by_end best [] = best"
| "max_by_end best (x # xs) = max_by_end (if span_end best < span_end x then x else best) xs"

definition closest_before :: "nat \<Rightarrow> span list \<Rightarrow> span option" where
  "closest_before first_food_start xs =
     (case filter (\<lambda>q. span_end q \<le> first_food_start) xs of
        [] \<Rightarrow> None
      | v # vs \<Rightarrow> Some (max_by_end v vs))"

text \<open>
  The dictionary the assembler returns. The quantity is a \<^typ>\<open>pyfloat\<close> where it comes
  out of \<^verbatim>\<open>parse_number\<close>, and a real where \<^verbatim>\<open>main.py\<close> computes with it.
\<close>

record 'q extracted_item =
  ingredient :: string
  quantity :: 'q
  unit :: string
  confidence :: real

definition extract_item_from_group ::
  "(string \<Rightarrow> real option) \<Rightarrow> span list \<Rightarrow> py_error + pyfloat extracted_item"
where
  "extract_item_from_group w2n ents =
     (let entity_info = map (\<lambda>ent. (ent, entity_score ent)) ents;
          quantities = filter (\<lambda>ent. span_label ent = ''QUANTITY'') ents;
          units = filter (\<lambda>ent. span_label ent = ''UNIT'') ents;
          foods = filter (\<lambda>ent. span_label ent = ''FOOD'') ents;
          ingr = (if foods \<noteq> [] then str_join '' '' (map span_text foods) else []);
          qty =
            (case foods of
               [] \<Rightarrow> Inr (Fin 1)
             | first_food # _ \<Rightarrow>
                 (case closest_before (span_start first_food) quantities of
                    None \<Rightarrow> Inr (Fin 1)
                  | Some closest_qty \<Rightarrow> parse_number w2n (Some (span_text closest_qty))));
          unit_str =
            (case foods of
               [] \<Rightarrow> ''serving''
             | first_food # _ \<Rightarrow>
                 (case closest_before (span_start first_food) units of
                    None \<Rightarrow> ''serving''
                  | Some closest_unit \<Rightarrow> normalize_unit (span_text closest_unit)));
          conf = calculate_confidence entity_info
      in case qty of
           Inl e \<Rightarrow> Inl e
         | Inr q \<Rightarrow>
             Inr \<lparr>ingredient = strip ingr, quantity = q, unit = unit_str,
                  confidence = py_round 2 conf\<rparr>)"

section \<open>Data model of \<^verbatim>\<open>main.py\<close>\<close>

text \<open>
  The pydantic models, with the constraints their \<^verbatim>\<open>Field\<close> declarations carry:
  building a model from keyword arguments validates them and raises
  \<^verbatim>\<open>ValidationError\<close> on a violation; assigning to a field of an existing model does not
  validate. Floats are finite here and carried as reals.
\<close>

record MacroInfo =
  calories :: real
  protein :: real
  carbs :: real
  fats :: real
  fiber :: "real option"
  sugar :: "real option"

definition optional_ge0 :: "real option \<Rightarrow> bool" where
  "optional_ge0 x = (case x of None \<Rightarrow> True | Some v \<Rightarrow> 0 \<le> v)"

definition macros_valid :: "MacroInfo \<Rightarrow> bool" where
  "macros_valid m =
     (0 \<le> calories m \<and> 0 \<le> protein m \<and> 0 \<le> carbs m \<and> 0 \<le> fats m \<and>
      optional_ge0 (fiber m) \<and> optional_ge0 (sugar m))"

definition MacroInfo_new ::
  "real \<Rightarrow> real \<Rightarrow> real \<Rightarrow> real \<Rightarrow> real option \<Rightarrow> real option \<Rightarrow> py_error + MacroInfo"
where
  "MacroInfo_new c p cb f fb sg =
     (let m = \<lparr>calories = c, protein = p, carbs = cb, fats = f, fiber = fb, sugar = sg\<rparr>
      in if macros_valid m then Inr m else Inl ValidationError)"


record FoodItem =
  name :: string
  food_quantity :: real
  food_unit :: string
  macros :: MacroInfo
  food_confidence :: "real option"
  source :: string
  food_notes :: "string option"
  usda_food_id :: "string option"

definition FoodItem_new ::
  "string \<Rightarrow> real \<Rightarrow> string \<Rightarrow> MacroInfo \<Rightarrow> real option \<Rightarrow> string \<Rightarrow> string option \<Rightarrow>
   string option \<Rightarrow> py_error + FoodItem"
where
  "FoodItem_new n q u m c src nt fid =
     (if 0 < q \<and> (case c of None \<Rightarrow> True | Some v \<Rightarrow> 0 \<le> v \<and> v \<le> 1)
      then Inr \<lparr>name = n, food_quantity = q, food_unit = u, macros = m, food_confidence = c,
                source = src, food_notes = nt, usda_food_id = fid\<rparr>
      else Inl ValidationError)"



section \<open>Fallback nutrition table: \<^verbatim>\<open>get_mock_nutrition_by_food_name\<close>\<close>

text \<open>
  One value of the table: the six keys every entry has. The table is an association
  list in the order the dictionary literal is written, which is the order a Python
  dictionary iterates in.
\<close>

record nutrition =
  n_calories :: real
  n_protein :: real
  n_carbs :: real
  n_fats :: real
  n_fiber :: real
  n_sugar :: real

definition entry :: "real \<Rightarrow> real \<Rightarrow> real \<Rightarrow> real \<Rightarrow> real \<Rightarrow> real \<Rightarrow> nutrition" where
  "entry c p cb f fb sg =
     \<lparr>n_calories = c, n_protein = p, n_carbs = cb, n_fats = f, n_fiber = fb, n_sugar = sg\<rparr>"

definition nutrition_db :: "(string \<times> nutrition) list" where
  "nutrition_db =
     [(''apple'', entry 95 0.5 25 0.3 4.0 19),
      (''banana'', entry 105 1.3 27 0.4 3.1 14),
      (''orange'', entry 65 1.3 16 0.2 3.4 13),
      (''strawberry'', entry 49 1.0 12 0.5 3.3 7),
      (''grape'', entry 69 0.7 18 0.2 0.9 15),
      (''mango'', entry 99 1.4 25 0.6 2.6 23),
      (''pineapple'', entry 82 0.9 22 0.2 2.3 16),
      (''watermelon'', entry 46 0.9 12 0.2 0.6 9),
      (''peach'', entry 58 1.4 14 0.4 2.3 13),
      (''pear'', entry 101 0.6 27 0.2 5.5 17),
      (''broccoli'', entry 55 4.6 11 0.6 5.1 2.6),
      (''carrot'', entry 41 0.9 10 0.2 2.8 4.7),
      (''tomato'', entry 22 1.1 4.8 0.2 1.4 3.2),
      (''lettuce'', entry 15 1.4 2.9 0.2 1.3 0.8),
      (''spinach'', entry 23 2.9 3.6 0.4 2.2 0.4),
      (''cucumber'', entry 16 0.7 3.6 0.1 0.5 1.7),
      (''bell pepper'', entry 31 1.0 6 0.3 2.1 4.2),
      (''mushroom'', entry 22 3.1 3.3 0.3 1.0 2.0),
      (''onion'', entry 40 1.1 9 0.1 1.7 4.2),
      (''garlic'', entry 149 6.4 33 0.5 2.1 1.0),
      (''chicken'', entry 165 31 0 3.6 0 0),
      (''chicken breast'', entry 165 31 0 3.6 0 0),
      (''beef'', entry 250 26 0 15 0 0),
      (''pork'', entry 242 27 0 14 0 0),
      (''fish'', entry 206 22 0 12 0 0),
      (''salmon'', entry 208 20 0 13 0 0),
      (''tuna'', entry 132 28 0 1.3 0 0),
      (''egg'', entry 155 13 1.1 11 0 1.1),
      (''tofu'', entry 76 8 1.9 4.8 0.3 0.7),
      (''bread'', entry 265 9 49 3.2 2.7 5.0),
      (''rice'', entry 130 2.7 28 0.3 0.4 0.1),
      (''brown rice'', entry 112 2.3 24 0.9 1.8 0.4),
      (''pasta'', entry 131 5 25 1.1 1.8 0.6),
      (''potato'', entry 77 2.0 17 0.1 2.1 0.8),
      (''sweet potato'', entry 86 1.6 20 0.1 3.0 4.2),
      (''oats'', entry 389 16.9 66 6.9 10.6 0.99),
      (''quinoa'', entry 120 4.4 21 1.9 2.8 0.9),
      (''pizza'', entry 285 12 36 10 2.3 3.8),
      (''burger'', entry 295 17 23 14 2.0 4.0),
      (''salad'', entry 65 5 7 4 3.0 4.0),
      (''sandwich'', entry 230 10 30 8 3.0 4.0),
      (''soup'', entry 85 4 12 2.5 2.0 3.0),
      (''wrap'', entry 245 11 32 9 2.5 3.5),
      (''cheese'', entry 113 7 1 9 0 0.5),
      (''yogurt'', entry 59 10 3.6 0.4 0 3.6),
      (''milk'', entry 61 3.2 4.8 3.3 0 5.1),
      (''nuts'', entry 607 20 16 54 8.0 4.0),
      (''almonds'', entry 579 21 22 50 12.5 4.4),
      (''peanuts'', entry 567 26 16 49 8.5 4.7),
      (''avocado'', entry 160 2 9 15 7.0 0.7)]"

definition default_nutrition :: nutrition where
  "default_nutrition = entry 150 8 20 5 2.0 5.0"

text \<open>
  The \<^verbatim>\<open>for key, nutrition in nutrition_db.items()\<close> loop: the first entry whose key is
  in the lowercased name, or that holds the lowercased name, returns.
\<close>

fun partial_match :: "(string \<times> nutrition) list \<Rightarrow> string \<Rightarrow> nutrition option" where
  "partial_match [] food_name_lower = None"
| "partial_match ((key, nutr) # rest) food_name_lower =
     (if str_contains food_name_lower key \<or> str_contains key food_name_lower then Some nutr
      else partial_match rest food_name_lower)"

definition get_mock_nutrition_by_food_name :: "string \<Rightarrow> nutrition" where
  "get_mock_nutrition_by_food_name food_name =
     (let food_name_lower = lower food_name
      in case map_of nutrition_db food_name_lower of
           Some nutr \<Rightarrow> nutr
         | None \<Rightarrow>
             (case partial_match nutrition_db food_name_lower of
                Some nutr \<Rightarrow> nutr
              | None \<Rightarrow> default_nutrition))"

text \<open>
  The lookup as the specification words it, for comparison: the entry under the exact
  lowercased key; otherwise the first entry, in table order, whose key is a substring of
  the lowercased name or holds it as a substring; otherwise the generic profile.
\<close>

definition spec_fallback_lookup :: "string \<Rightarrow> nutrition" where
  "spec_fallback_lookup food_name =
     (case find (\<lambda>(key, profile). key = lower food_name) nutrition_db of
        Some (key, profile) \<Rightarrow> profile
      | None \<Rightarrow>
          (case find (\<lambda>(key, profile). sublist key (lower food_name) \<or>
                                        sublist (lower food_name) key) nutrition_db of
             Some (key, profile) \<Rightarrow> profile
           | None \<Rightarrow>
               \<lparr>n_calories = 150, n_protein = 8, n_carbs = 20, n_fats = 5,
                n_fiber = 2.0, n_sugar = 5.0\<rparr>))"

section \<open>USDA lookup\<close>

text \<open>
  The network is a parameter. A request either raises (connection error, timeout) or
  returns a status code with a body; the body is \<^verbatim>\<open>None\<close> where
  \<^verbatim>\<open>response.json()\<close> raises. Both functions catch every exception themselves.
  A search candidate is read only through \<^verbatim>\<open>str(usda_food.get('fdcId', ''))\<close>; a
  nutrient through its name, its unit name and \<^verbatim>\<open>float(amount)\<close>, which is
  \<^verbatim>\<open>None\<close> where \<^verbatim>\<open>float\<close> raises.
\<close>

datatype 'a http_outcome = Http_raises | Http_response nat "'a option"

record usda_food =
  fdcId :: string

record usda_nutrient =
  nutrient_name :: string
  nutrient_unit :: string
  amount :: "real option"

record usda_service =
  http_search :: "string \<Rightarrow> usda_food list http_outcome"
  http_detail :: "string \<Rightarrow> usda_nutrient list http_outcome"

definition key_configured :: "string \<Rightarrow> bool" where
  "key_configured api_key = (api_key \<noteq> [] \<and> api_key \<noteq> ''your_usda_api_key_here'')"

definition search_usda_food :: "string \<Rightarrow> usda_service \<Rightarrow> string \<Rightarrow> usda_food list" where
  "search_usda_food api_key svc query =
     (if \<not> key_configured api_key then []
      else (case http_search svc query of
              Http_raises \<Rightarrow> []
            | Http_response code body \<Rightarrow>
                if code = 200 then (case body of None \<Rightarrow> [] | Some foods \<Rightarrow> foods) else []))"

text \<open>
  The detail record is the \<^verbatim>\<open>foodNutrients\<close> list of a JSON object that is not empty
  (an empty object is falsy at \<^verbatim>\<open>if usda_detail:\<close> and counts as no record).
\<close>

definition get_usda_nutrition :: "string \<Rightarrow> usda_service \<Rightarrow> string \<Rightarrow> usda_nutrient list option" where
  "get_usda_nutrition api_key svc food_id =
     (if \<not> key_configured api_key then None
      else (case http_detail svc food_id of
              Http_raises \<Rightarrow> None
            | Http_response code body \<Rightarrow> if code = 200 then body else None))"

definition upper_char :: "char \<Rightarrow> char" where
  "upper_char c =
     (case map_of (zip ascii_lowercase ascii_uppercase) c of Some u \<Rightarrow> u | None \<Rightarrow> c)"

definition upper :: "string \<Rightarrow> string" where
  "upper s = map upper_char s"

definition nutrient_map :: "(string \<times> string) list" where
  "nutrient_map =
     [(''Energy'', ''calories''),
      (''Protein'', ''protein''),
      (''Carbohydrate, by difference'', ''carbs''),
      (''Total lipid (fat)'', ''fats''),
      (''Fiber, total dietary'', ''fiber''),
      (''Sugars, total including NLEA'', ''sugar'')]"

fun collect_nutrients ::
  "usda_nutrient list \<Rightarrow> (string \<rightharpoonup> real) \<Rightarrow> py_error + (string \<rightharpoonup> real)"
where
  "collect_nutrients [] nutrients = Inr nutrients"
| "collect_nutrients (n # ns) nutrients =
     (case map_of nutrient_map (nutrient_name n) of
        None \<Rightarrow> collect_nutrients ns nutrients
      | Some field \<Rightarrow>
          if nutrient_name n = ''Energy'' then
            (if upper (nutrient_unit n) = ''KCAL'' then
               (case amount n of
                  None \<Rightarrow> Inl ValueError
                | Some v \<Rightarrow> collect_nutrients ns (nutrients(field \<mapsto> v)))
             else if upper (nutrient_unit n) = ''KJ'' then
               (case amount n of
                  None \<Rightarrow> Inl ValueError
                | Some v \<Rightarrow> collect_nutrients ns (nutrients(field \<mapsto> v / 4.184)))
             else collect_nutrients ns nutrients)
          else
            (case amount n of
               None \<Rightarrow> Inl ValueError
             | Some v \<Rightarrow> collect_nutrients ns (nutrients(field \<mapsto> v))))"

definition get_or :: "(string \<rightharpoonup> real) \<Rightarrow> string \<Rightarrow> real \<Rightarrow> real" where
  "get_or m k d = (case m k of None \<Rightarrow> d | Some v \<Rightarrow> v)"

definition extract_usda_macros :: "usda_nutrient list \<Rightarrow> py_error + MacroInfo" where
  "extract_usda_macros food_nutrients =
     (case collect_nutrients food_nutrients Map.empty of
        Inl e \<Rightarrow> Inl e
      | Inr nutrients \<Rightarrow>
          MacroInfo_new (get_or nutrients ''calories'' 0) (get_or nutrients ''protein'' 0)
            (get_or nutrients ''carbs'' 0) (get_or nutrients ''fats'' 0)
            (nutrients ''fiber'') (nutrients ''sugar''))"

section \<open>Nutrition resolver: the loop of \<^verbatim>\<open>process_text_analysis\<close>\<close>

text \<open>The six \<^verbatim>\<open>*=\<close> statements; the optional fields are scaled when truthy.\<close>

definition scale_optional :: "real option \<Rightarrow> real \<Rightarrow> real option" where
  "scale_optional x q = (if truthy x then map_option (\<lambda>v. v * q) x else x)"

definition scale_macros :: "MacroInfo \<Rightarrow> real \<Rightarrow> MacroInfo" where
  "scale_macros m q =
     \<lparr>calories = calories m * q, protein = protein m * q, carbs = carbs m * q,
      fats = fats m * q, fiber = scale_optional (fiber m) q, sugar = scale_optional (sugar m) q\<rparr>"

text \<open>The text of an exception, \<^verbatim>\<open>str(e)\<close>, stands as the name of its class.\<close>

fun error_str :: "py_error \<Rightarrow> string" where
  "error_str ValueError = ''ValueError''"
| "error_str ZeroDivisionError = ''ZeroDivisionError''"
| "error_str ValidationError = ''ValidationError''"

text \<open>
  The inner \<^verbatim>\<open>try\<close> block, entered when the lookup is enabled. It yields the three
  variables it may assign: \<^verbatim>\<open>macros\<close>, \<^verbatim>\<open>notes\<close> and \<^verbatim>\<open>usda_food_id\<close>. The
  identifier is assigned before the detail record is fetched and stays assigned when the
  fetch or the mapping fails.
\<close>

definition usda_lookup ::
  "string \<Rightarrow> usda_service \<Rightarrow> string \<Rightarrow> real \<Rightarrow> MacroInfo option \<times> string list \<times> string option"
where
  "usda_lookup api_key svc item_name item_quantity =
     (case search_usda_food api_key svc item_name of
        [] \<Rightarrow> (None, [''No USDA match found''], None)
      | usda_food # _ \<Rightarrow>
          (let food_id = fdcId usda_food in
           case get_usda_nutrition api_key svc food_id of
             None \<Rightarrow> (None, [''USDA nutrition lookup failed''], Some food_id)
           | Some usda_detail \<Rightarrow>
               (case extract_usda_macros usda_detail of
                  Inl e \<Rightarrow> (None, [''USDA error: '' @ error_str e], Some food_id)
                | Inr m \<Rightarrow> (Some (scale_macros m item_quantity), [], Some food_id))))"

definition str_truthy :: "string option \<Rightarrow> bool" where
  "str_truthy x = (case x of None \<Rightarrow> False | Some s \<Rightarrow> s \<noteq> [])"

text \<open>
  The body of the \<^verbatim>\<open>for item in extracted_items\<close> loop: \<^verbatim>\<open>Inl\<close> is an exception
  that reaches the loop's \<^verbatim>\<open>except Exception\<close>.
\<close>

definition process_item ::
  "string \<Rightarrow> usda_service \<Rightarrow> bool \<Rightarrow> real extracted_item \<Rightarrow> py_error + FoodItem"
where
  "process_item api_key svc with_usda item =
     (let item_name = ingredient item;
          item_quantity = quantity item;
          item_unit = unit item;
          item_confidence = confidence item
      in case (if with_usda \<and> key_configured api_key
               then usda_lookup api_key svc item_name item_quantity
               else (None, [], None)) of
           (found, lookup_notes, food_id) \<Rightarrow>
             (case (case found of
                      Some m \<Rightarrow> Inr (m, lookup_notes)
                    | None \<Rightarrow>
                        (let mock = get_mock_nutrition_by_food_name item_name in
                         case MacroInfo_new (n_calories mock * item_quantity)
                                (n_protein mock * item_quantity) (n_carbs mock * item_quantity)
                                (n_fats mock * item_quantity)
                                (Some (n_fiber mock * item_quantity))
                                (Some (n_sugar mock * item_quantity)) of
                           Inl e \<Rightarrow> Inl e
                         | Inr m \<Rightarrow> Inr (m, lookup_notes @ [''Using estimated nutrition values'']))) of
                Inl e \<Rightarrow> Inl e
              | Inr (m, all_notes) \<Rightarrow>
                  FoodItem_new item_name item_quantity item_unit m
                    (Some (if str_truthy food_id then min (item_confidence + 0.05) 1.0
                           else item_confidence))
                    (if str_truthy food_id then ''text_usda'' else ''text_estimated'')
                    (if all_notes \<noteq> [] then Some (str_join ''; '' all_notes) else None)
                    food_id))"

fun process_items ::
  "string \<Rightarrow> usda_service \<Rightarrow> bool \<Rightarrow> real extracted_item list \<Rightarrow> FoodItem list \<Rightarrow> FoodItem list"
where
  "process_items api_key svc with_usda [] processed_items = processed_items"
| "process_items api_key svc with_usda (item # rest) processed_items =
     (case process_item api_key svc with_usda item of
        Inl e \<Rightarrow> process_items api_key svc with_usda rest processed_items
      | Inr food_item \<Rightarrow> process_items api_key svc with_usda rest (processed_items @ [food_item]))"


text \<open>
  \<^verbatim>\<open>process_text_analysis\<close>. The extractor's outcome on the text is a parameter:
  \<^verbatim>\<open>Inl\<close> where \<^verbatim>\<open>enhanced_extract\<close> raises.
\<close>

definition process_text_analysis ::
  "string \<Rightarrow> usda_service \<Rightarrow> bool \<Rightarrow> py_error + real extracted_item list \<Rightarrow> FoodItem list"
where
  "process_text_analysis api_key svc with_usda extraction =
     (case extraction of
        Inl e \<Rightarrow> []
      | Inr extracted_items \<Rightarrow>
          if extracted_items = [] then []
          else process_items api_key svc with_usda extracted_items [])"

section \<open>Aggregator: \<^verbatim>\<open>calculate_totals\<close>\<close>





section \<open>Endpoint: \<^verbatim>\<open>analyze_text\<close>\<close>





section \<open>Sample inputs\<close>

text \<open>The spans of "2 apples": a quantity before a food, no unit, no scores.\<close>

definition two_apples :: "span list" where
  "two_apples =
     [\<lparr>span_label = ''QUANTITY'', span_text = ''2'', span_start = 0, span_end = 1,
       span_score = None, span_confidence = None\<rparr>,
      \<lparr>span_label = ''FOOD'', span_text = ''apples'', span_start = 2, span_end = 8,
       span_score = None, span_confidence = None\<rparr>]"

text \<open>The spans of "2 rice", the quantity scored 1.0 and the food scored 0.0.\<close>

definition scored_rice :: "span list" where
  "scored_rice =
     [\<lparr>span_label = ''QUANTITY'', span_text = ''2'', span_start = 0, span_end = 1,
       span_score = Some 1, span_confidence = None\<rparr>,
      \<lparr>span_label = ''FOOD'', span_text = ''rice'', span_start = 2, span_end = 6,
       span_score = Some 0, span_confidence = None\<rparr>]"

text \<open>
  A service whose search finds candidate 123 for every name and whose detail request
  answers 404, and one whose search finds nothing.
\<close>

definition detail_missing :: usda_service where
  "detail_missing =
     \<lparr>http_search = (\<lambda>query. Http_response 200 (Some [\<lparr>fdcId = ''123''\<rparr>])),
      http_detail = (\<lambda>food_id. Http_response 404 None)\<rparr>"


definition apples_item :: "real \<Rightarrow> real extracted_item" where
  "apples_item q = \<lparr>ingredient = ''apples'', quantity = q, unit = ''serving'', confidence = 0.8\<rparr>"


section \<open>Properties of the grouper\<close>

lemma group_loop_concat:
  "group_loop ents groups cur hf = (groups', cur') \<Longrightarrow>
   concat groups' @ cur' = concat groups @ cur @ ents"
proof (induction ents arbitrary: groups cur hf)
  case Nil
  then show ?case by simp
next
  case (Cons ent ents)
  show ?case
  proof (cases "span_label ent = ''FOOD'' \<and> hf")
    case True
    with Cons.prems have
      "group_loop ents (if cur \<noteq> [] then groups @ [cur] else groups) [ent] True = (groups', cur')"
      by simp
    from Cons.IH [OF this] show ?thesis by (cases "cur = []") simp_all
  next
    case False
    with Cons.prems have
      "group_loop ents groups (cur @ [ent]) (if span_label ent = ''FOOD'' then True else hf)
         = (groups', cur')"
      by (simp split: if_splits)
    from Cons.IH [OF this] show ?thesis by simp
  qed
qed

lemma group_loop_nonempty:
  "group_loop ents groups cur hf = (groups', cur') \<Longrightarrow> [] \<notin> set groups \<Longrightarrow>
   [] \<notin> set groups'"
proof (induction ents arbitrary: groups cur hf)
  case Nil
  then show ?case by simp
next
  case (Cons ent ents)
  show ?case
  proof (cases "span_label ent = ''FOOD'' \<and> hf")
    case True
    with Cons.prems have run:
      "group_loop ents (if cur \<noteq> [] then groups @ [cur] else groups) [ent] True = (groups', cur')"
      by simp
    have "[] \<notin> set (if cur \<noteq> [] then groups @ [cur] else groups)"
      using Cons.prems(2) by simp
    from Cons.IH [OF run this] show ?thesis .
  next
    case False
    with Cons.prems have run:
      "group_loop ents groups (cur @ [ent]) (if span_label ent = ''FOOD'' then True else hf)
         = (groups', cur')"
      by (simp split: if_splits)
    from Cons.IH [OF run Cons.prems(2)] show ?thesis .
  qed
qed

text \<open>
  C3. Concatenating the groups the grouper returns, in order, gives back the input span
  sequence exactly, and no group is empty: every span lies in exactly one group, none is
  added or dropped, and the order is kept.
\<close>

theorem group_entities_by_proximity_partition:
  "concat (group_entities_by_proximity entities) = entities \<and>
   [] \<notin> set (group_entities_by_proximity entities)"
proof (cases "entities = []")
  case True
  then show ?thesis by (simp add: group_entities_by_proximity_def)
next
  case False
  obtain groups cur where run: "group_loop entities [] [] False = (groups, cur)"
    by (cases "group_loop entities [] [] False")
  from group_loop_concat [OF run] have cat: "concat groups @ cur = entities" by simp
  from group_loop_nonempty [OF run] have ne: "[] \<notin> set groups" by simp
  from False run cat ne show ?thesis
    by (cases "cur = []") (simp_all add: group_entities_by_proximity_def)
qed

section \<open>Properties of the quantity parser\<close>











lemma parse_number_unfold:
  "raw \<noteq> [] \<Longrightarrow> parse_number w2n (Some raw) =
     (case py_float (lower (strip raw)) of
        Some v \<Rightarrow> Inr v
      | None \<Rightarrow>
          (case (if CHR ''/'' \<in> set (lower (strip raw)) then parse_fraction (lower (strip raw)) else None) of
             Some v \<Rightarrow> Inr v
           | None \<Rightarrow>
               (case parse_mixed (lower (strip raw)) of
                  Inl e \<Rightarrow> Inl e
                | Inr (Some v) \<Rightarrow> Inr v
                | Inr None \<Rightarrow>
                    (case map_of word_numbers (lower (strip raw)) of
                       Some r \<Rightarrow> Inr (Fin r)
                     | None \<Rightarrow>
                         (case w2n (lower (strip raw)) of
                            Some r \<Rightarrow> Inr (Fin r)
                          | None \<Rightarrow> Inr (Fin 1))))))"
  by (simp add: parse_number_def Let_def)


lemma word_numbers_shape:
  "list_all (\<lambda>(w, r). w \<noteq> [] \<and> lower (strip w) = w \<and> py_float w = None \<and>
      CHR ''/'' \<notin> set w \<and> parse_mixed w = Inr None \<and> map_of word_numbers w = Some r) word_numbers"
  by code_simp

lemma parse_number_table_word:
  assumes "(w, r) \<in> set word_numbers"
  shows "parse_number w2n (Some w) = Inr (Fin r)"
proof -
  from assms word_numbers_shape
  have "w \<noteq> []" "lower (strip w) = w" "py_float w = None" "CHR ''/'' \<notin> set w"
       "parse_mixed w = Inr None" "map_of word_numbers w = Some r"
    unfolding list_all_iff by blast+
  then show ?thesis by (simp add: parse_number_unfold)
qed

text \<open>
  C6 (as amended). Every word of the lexical table parses to the value the table gives
  it: one to ten to 1 to 10, half to 0.5, quarter to 0.25, a and an to 1, and third to
  0.33, whatever \<^verbatim>\<open>word_to_num\<close> does.
\<close>

theorem parse_number_lexical_table:
  "parse_number w2n (Some ''one'') = Inr (Fin 1) \<and>
   parse_number w2n (Some ''two'') = Inr (Fin 2) \<and>
   parse_number w2n (Some ''three'') = Inr (Fin 3) \<and>
   parse_number w2n (Some ''four'') = Inr (Fin 4) \<and>
   parse_number w2n (Some ''five'') = Inr (Fin 5) \<and>
   parse_number w2n (Some ''six'') = Inr (Fin 6) \<and>
   parse_number w2n (Some ''seven'') = Inr (Fin 7) \<and>
   parse_number w2n (Some ''eight'') = Inr (Fin 8) \<and>
   parse_number w2n (Some ''nine'') = Inr (Fin 9) \<and>
   parse_number w2n (Some ''ten'') = Inr (Fin 10) \<and>
   parse_number w2n (Some ''half'') = Inr (Fin 0.5) \<and>
   parse_number w2n (Some ''quarter'') = Inr (Fin 0.25) \<and>
   parse_number w2n (Some ''third'') = Inr (Fin 0.33) \<and>
   parse_number w2n (Some ''a'') = Inr (Fin 1) \<and>
   parse_number w2n (Some ''an'') = Inr (Fin 1)"
  by (intro conjI parse_number_table_word) (simp_all add: word_numbers_def)

text \<open>
  C6, as stated, fails at the word third: the parser does not return one third.
\<close>

theorem parse_number_third_counterexample:
  "parse_number w2n_rejects (Some ''third'') \<noteq> Inr (Fin (1 / 3))"
  by code_simp


section \<open>Properties of the unit normalizer\<close>

text \<open>
  C10. The normalizer is not idempotent on a string of whitespace only: the test for an
  empty unit comes before the string is stripped, so a single space normalizes to the
  empty string, and the empty string normalizes to servings.
\<close>

theorem normalize_unit_whitespace_not_idempotent:
  "normalize_unit '' '' = [] \<and> normalize_unit (normalize_unit '' '') = ''servings''"
  by code_simp

lemma ascii_case_length: "length ascii_uppercase = length ascii_lowercase"
  by (simp add: ascii_uppercase_def ascii_lowercase_def)

lemma ascii_case_disjoint: "list_all (\<lambda>l. l \<notin> set ascii_uppercase) ascii_lowercase"
  by code_simp

lemma lower_char_fixed: "c \<notin> set ascii_uppercase \<Longrightarrow> lower_char c = c"
  using map_of_zip_is_None [OF ascii_case_length, of c] by (simp add: lower_char_def)

lemma lower_char_range: "lower_char c \<notin> set ascii_uppercase"
proof (cases "map_of (zip ascii_uppercase ascii_lowercase) c")
  case None
  with map_of_zip_is_None [OF ascii_case_length, of c] show ?thesis
    by (simp add: lower_char_def)
next
  case (Some l)
  then have "l \<in> set ascii_lowercase" by (meson map_of_SomeD set_zip_rightD)
  with ascii_case_disjoint Some show ?thesis
    unfolding list_all_iff by (simp add: lower_char_def)
qed

lemma lower_idem: "lower (lower s) = lower s"
  by (simp add: lower_def lower_char_fixed [OF lower_char_range])

lemma uppercase_not_space:
  "list_all (\<lambda>c. \<not> is_space c \<and> \<not> is_space (lower_char c)) ascii_uppercase"
  by code_simp

lemma is_space_lower_char: "is_space (lower_char c) = is_space c"
proof (cases "c \<in> set ascii_uppercase")
  case False
  then show ?thesis by (simp add: lower_char_fixed)
next
  case True
  with uppercase_not_space show ?thesis unfolding list_all_iff by blast
qed

lemma dropWhile_space_lower:
  "dropWhile is_space (map lower_char s) = map lower_char (dropWhile is_space s)"
  by (induction s) (simp_all add: is_space_lower_char)

lemma strip_lower: "strip (lower s) = lower (strip s)"
proof -
  have "dropWhile is_space (rev (map lower_char (dropWhile is_space s)))
          = map lower_char (dropWhile is_space (rev (dropWhile is_space s)))"
    by (simp only: rev_map dropWhile_space_lower)
  then show ?thesis
    by (simp add: strip_def lower_def dropWhile_space_lower rev_map)
qed

lemma dropWhile_strip: "dropWhile is_space (strip s) = strip s"
proof -
  define u where "u = dropWhile is_space s"
  have hd_u: "u \<noteq> [] \<Longrightarrow> \<not> is_space (hd u)"
    unfolding u_def by (simp add: hd_dropWhile)
  define n where "n = length (takeWhile is_space (rev u))"
  have t: "strip s = take (length u - n) u"
    unfolding strip_def u_def [symmetric] n_def
    by (simp add: dropWhile_eq_drop rev_drop)
  show ?thesis
  proof (cases "strip s = []")
    case True
    then show ?thesis by simp
  next
    case False
    with t have "u \<noteq> []" "0 < length u - n" by auto
    then have "hd (strip s) = hd u" using t by (simp add: hd_take)
    with hd_u \<open>u \<noteq> []\<close> have "\<not> is_space (hd (strip s))" by simp
    with False show ?thesis by (cases "strip s") simp_all
  qed
qed

lemma strip_idem: "strip (strip s) = strip s"
proof -
  have "dropWhile is_space (rev (strip s)) = rev (strip s)"
    by (simp add: strip_def)
  then show ?thesis
    by (simp add: strip_def [of "strip s"] dropWhile_strip)
qed

lemma strip_lower_idem: "strip (lower (strip (lower s))) = strip (lower s)"
  by (simp add: strip_lower lower_idem strip_idem)

lemma canonical_units_fixed:
  "list_all (\<lambda>(alias, canonical). normalize_unit canonical = canonical) UNIT_ALIASES"
  by code_simp

text \<open>
  On every other string the normalizer is idempotent: on the empty string, and on every
  string that is not empty once lowercased and stripped.
\<close>

lemma normalize_unit_idempotent_off_whitespace:
  assumes "u = [] \<or> strip (lower u) \<noteq> []"
  shows "normalize_unit (normalize_unit u) = normalize_unit u"
proof (cases "u = []")
  case True
  have "normalize_unit ''servings'' = ''servings''" by code_simp
  with True show ?thesis by (simp add: normalize_unit_def)
next
  case False
  with assms have ne: "strip (lower u) \<noteq> []" by simp
  show ?thesis
  proof (cases "map_of UNIT_ALIASES (strip (lower u))")
    case (Some c)
    then have "(strip (lower u), c) \<in> set UNIT_ALIASES" by (rule map_of_SomeD)
    with canonical_units_fixed have "normalize_unit c = c" unfolding list_all_iff by blast
    moreover from Some False have "normalize_unit u = c" by (simp add: normalize_unit_def)
    ultimately show ?thesis by simp
  next
    case None
    with False have nu: "normalize_unit u = strip (lower u)" by (simp add: normalize_unit_def)
    from None ne have "normalize_unit (strip (lower u)) = strip (lower u)"
      by (simp add: normalize_unit_def strip_lower_idem)
    with nu show ?thesis by simp
  qed
qed

section \<open>Properties of the assembler and the confidence scorer\<close>

text \<open>
  C1. For a group with a food and no unit before it the assembler returns the unit
  serving, an alias, where the normalizer gives an absent unit the canonical servings:
  the item assembled from the spans of "2 apples".
\<close>

theorem assembler_default_unit_is_serving:
  "extract_item_from_group w2n_rejects two_apples =
     Inr \<lparr>ingredient = ''apples'', quantity = Fin 2, unit = ''serving'', confidence = 0.8\<rparr>"
  by code_simp

text \<open>
  The same for every group with a food and no unit that ends at or before the first
  food's start.
\<close>

lemma assembler_default_unit:
  assumes "filter (\<lambda>ent. span_label ent = ''FOOD'') ents = first_food # other_foods"
    and "filter (\<lambda>u. span_end u \<le> span_start first_food)
           (filter (\<lambda>ent. span_label ent = ''UNIT'') ents) = []"
    and "extract_item_from_group w2n ents = Inr item"
  shows "unit item = ''serving''"
  using assms
  by (auto simp: extract_item_from_group_def closest_before_def Let_def split: sum.splits)

text \<open>
  C4. A span whose score is 0.0 is left out of the mean, because the assembler reads
  the score with \<^verbatim>\<open>or\<close> and 0.0 is falsy: with scores 1.0 and 0.0 present the
  group's confidence is 1.0, where the mean of the scores present is 0.5.
\<close>

theorem zero_score_dropped_from_mean:
  "group_confidence scored_rice = 1 \<and> mean_present_scores scored_rice = 1 / 2"
  by code_simp

text \<open>
  Where no span carries a score the structural values hold, and where no score is zero
  the confidence is the mean of the scores present.
\<close>

lemma map_filter_all_None: "(\<And>x. x \<in> set xs \<Longrightarrow> f x = None) \<Longrightarrow> List.map_filter f xs = []"
  by (induction xs) (simp_all add: List.map_filter_simps)

lemma group_confidence_heuristic:
  assumes "\<And>ent. ent \<in> set ents \<Longrightarrow> entity_score ent = None"
  shows "group_confidence ents =
     (if ''FOOD'' \<in> span_label ` set ents then
        (if ''QUANTITY'' \<in> span_label ` set ents \<and> ''UNIT'' \<in> span_label ` set ents then 0.95
         else if ''QUANTITY'' \<in> span_label ` set ents \<or> ''UNIT'' \<in> span_label ` set ents then 0.80
         else 0.65)
      else 0.50)"
proof -
  have "List.map_filter snd (map (\<lambda>ent. (ent, entity_score ent)) ents) = []"
    using assms by (intro map_filter_all_None) auto
  moreover have "set (map (\<lambda>(e, s). span_label e) (map (\<lambda>ent. (ent, entity_score ent)) ents))
      = span_label ` set ents" by (auto simp: image_iff)
  ultimately show ?thesis
    unfolding group_confidence_def calculate_confidence_def Let_def
    by (cases "ents = []") simp_all
qed

lemma group_confidence_mean:
  assumes "\<And>ent. ent \<in> set ents \<Longrightarrow> span_score ent \<noteq> Some 0 \<and> span_confidence ent = None"
    and "List.map_filter present_score ents \<noteq> []"
  shows "group_confidence ents = mean_present_scores ents"
proof -
  have same: "entity_score ent = present_score ent" if "ent \<in> set ents" for ent
    using assms(1) [OF that]
    by (cases "span_score ent") (simp_all add: entity_score_def present_score_def py_or_def truthy_def)
  have "List.map_filter snd (map (\<lambda>ent. (ent, entity_score ent)) ents)
          = List.map_filter present_score ents"
    using same by (induction ents) (auto simp: List.map_filter_simps split: option.splits)
  with assms(2) show ?thesis
    unfolding group_confidence_def calculate_confidence_def mean_present_scores_def Let_def
    by (cases "ents = []") (simp_all add: List.map_filter_simps)
qed

section \<open>Properties of the fallback lookup and the aggregator\<close>

lemma str_contains_sublist: "str_contains haystack needle \<longleftrightarrow> sublist needle haystack"
  by (induction haystack) (simp_all add: sublist_Cons_right)

lemma map_of_find:
  "map_of xs k = map_option snd (find (\<lambda>(key, v). key = k) xs)"
  by (induction xs) auto

lemma partial_match_find:
  "partial_match xs wanted =
     map_option snd (find (\<lambda>(key, profile). sublist key wanted \<or> sublist wanted key) xs)"
proof (induction xs)
  case Nil
  show ?case by simp
next
  case (Cons kv xs)
  obtain key nutr where kv: "kv = (key, nutr)" by (cases kv)
  show ?case
    by (cases "sublist key wanted \<or> sublist wanted key")
       (simp_all add: kv str_contains_sublist Cons.IH)
qed

text \<open>
  C7. For every ingredient name the fallback lookup returns the entry under the exact
  lowercased key if there is one; otherwise the first entry, in table order, whose key is
  a substring of the lowercased name or holds it; otherwise the generic profile
  150, 8, 20, 5, 2.0, 5.0.
\<close>

theorem fallback_lookup_refines_spec:
  "get_mock_nutrition_by_food_name food_name = spec_fallback_lookup food_name"
  unfolding get_mock_nutrition_by_food_name_def spec_fallback_lookup_def Let_def
    map_of_find partial_match_find
  by (auto simp: default_nutrition_def entry_def split: option.splits)

text \<open>
  Table order decides between overlapping keys: chicken precedes chicken breast, and
  potato precedes sweet potato.
\<close>

lemma fallback_lookup_order_dependent:
  "get_mock_nutrition_by_food_name ''Grilled Chicken Breast'' = entry 165 31 0 3.6 0 0 \<and>
   get_mock_nutrition_by_food_name ''Apple'' = entry 95 0.5 25 0.3 4.0 19 \<and>
   get_mock_nutrition_by_food_name ''sweet potato fries'' = entry 77 2.0 17 0.1 2.1 0.8 \<and>
   get_mock_nutrition_by_food_name ''xyz'' = entry 150 8 20 5 2.0 5.0"
  by code_simp








section \<open>Properties of the resolver and the endpoint\<close>

text \<open>
  C2. When the search finds a candidate and the detail request fails, the macros come
  from the fallback table and the note says so, yet the item is marked
  \<^verbatim>\<open>text_usda\<close> and its confidence is raised from 0.80 to 0.85: the identifier
  assigned before the fetch is what the boost tests.
\<close>

theorem boost_applied_when_detail_fails:
  "process_text_analysis ''key'' detail_missing True (Inr [apples_item 2]) =
     [\<lparr>name = ''apples'', food_quantity = 2, food_unit = ''serving'',
       macros = \<lparr>calories = 190, protein = 1.0, carbs = 50, fats = 0.6,
                  fiber = Some 8.0, sugar = Some 38\<rparr>,
       food_confidence = Some 0.85, source = ''text_usda'',
       food_notes = Some ''USDA nutrition lookup failed; Using estimated nutrition values'',
       usda_food_id = Some ''123''\<rparr>]"
  by code_simp


text \<open>
  Where the lookup is off, or the search finds no candidate, the confidence is the
  extracted one and the source is \<^verbatim>\<open>text_estimated\<close>.
\<close>

lemma confidence_kept_without_candidate:
  assumes "\<not> (with_usda \<and> key_configured api_key) \<or>
           search_usda_food api_key svc (ingredient item) = []"
    and "process_item api_key svc with_usda item = Inr fi"
  shows "food_confidence fi = Some (confidence item) \<and> source fi = ''text_estimated''"
  using assms
  by (auto simp: process_item_def usda_lookup_def FoodItem_new_def str_truthy_def Let_def
      split: if_splits sum.splits)



















end
